theory Spec2Isabelle
  imports Main
begin

section \<open>JavaScript values\<close>

text \<open>
  The values that reach the route handlers of \<^verbatim>\<open>src/routes/tareas.js\<close>: what
  \<^verbatim>\<open>body-parser\<close> produces from a JSON body, what \<^verbatim>\<open>req.header\<close> returns, and the
  \<^verbatim>\<open>Date\<close> the handlers stamp. An object is an association list in insertion order.
  A number is an integer here: the handlers only test a number for truthiness, and a
  fraction behaves there like any non-zero integer. A string is a list of 8-bit
  characters, which is what Node delivers for a header value (decoded as latin1); the
  handlers never look inside a string of the body.
\<close>

datatype jsval =
    JUndefined
  | JNull
  | JBool bool
  | JNum int
  | JStr string
  | JDate int
  | JArr "jsval list"
  | JObj "(string \<times> jsval) list"

type_synonym jsobject = "(string \<times> jsval) list"

text \<open>JavaScript's \<^verbatim>\<open>ToBoolean\<close>: what \<^verbatim>\<open>if (v)\<close>, \<^verbatim>\<open>!v\<close> and \<^verbatim>\<open>v && w\<close> test.\<close>

fun truthy :: "jsval \<Rightarrow> bool" where
  "truthy JUndefined = False"
| "truthy JNull = False"
| "truthy (JBool b) = b"
| "truthy (JNum n) = (n \<noteq> 0)"
| "truthy (JStr s) = (s \<noteq> [])"
| "truthy (JDate d) = True"
| "truthy (JArr xs) = True"
| "truthy (JObj kvs) = True"

text \<open>
  \<^verbatim>\<open>v instanceof String || typeof v === "string"\<close>. No \<^verbatim>\<open>String\<close> wrapper object
  can come out of a header or a JSON body, so the test is that of a primitive string.
\<close>

fun isString :: "jsval \<Rightarrow> bool" where
  "isString (JStr s) = True"
| "isString v = False"

text \<open>
  Whether \<^verbatim>\<open>ToString\<close>, which a template literal applies to the value it interpolates,
  returns for a value; it throws a \<^verbatim>\<open>TypeError\<close> otherwise. An object parsed from JSON
  has no callable property of its own, so one with a key \<^verbatim>\<open>toString\<close> hides the inherited
  method and cannot be converted; any other object prints as \<^verbatim>\<open>[object Object]\<close>. An array
  joins its elements, converting each one that is not \<^verbatim>\<open>null\<close> or \<^verbatim>\<open>undefined\<close>.
\<close>

fun printable :: "jsval \<Rightarrow> bool" where
  "printable (JArr xs) = list_all printable xs"
| "printable (JObj kvs) = (''toString'' \<notin> set (map fst kvs))"
| "printable v = True"

text \<open>Property read \<^verbatim>\<open>o.k\<close>: \<^verbatim>\<open>undefined\<close> for a missing key.\<close>

definition obj_get :: "jsobject \<Rightarrow> string \<Rightarrow> jsval" where
  "obj_get obj k = (case map_of obj k of None \<Rightarrow> JUndefined | Some v \<Rightarrow> v)"

text \<open>Property write \<^verbatim>\<open>o.k = v\<close>: an existing key keeps its place, a new one goes last.\<close>

fun obj_set :: "jsobject \<Rightarrow> string \<Rightarrow> jsval \<Rightarrow> jsobject" where
  "obj_set [] k v = [(k, v)]"
| "obj_set ((k', v') # kvs) k v =
     (if k' = k then (k, v) # kvs else (k', v') # obj_set kvs k v)"

text \<open>\<^verbatim>\<open>delete o.k\<close>.\<close>

definition obj_delete :: "jsobject \<Rightarrow> string \<Rightarrow> jsobject" where
  "obj_delete obj k = filter (\<lambda>kv. fst kv \<noteq> k) obj"

section \<open>Header parsing\<close>

text \<open>
  \<^verbatim>\<open>s.split(";")\<close>: the segments between the separators; an empty string gives one
  empty segment, and a trailing separator gives a last empty segment.
\<close>

fun split_on :: "char \<Rightarrow> string \<Rightarrow> string list" where
  "split_on c [] = [[]]"
| "split_on c (x # xs) =
     (if x = c then [] # split_on c xs
      else (case split_on c xs of
              [] \<Rightarrow> [[x]]
            | seg # segs \<Rightarrow> (x # seg) # segs))"

text \<open>
  The white space and line terminators that \<^verbatim>\<open>String.prototype.trim\<close> strips, among the
  8-bit characters: TAB, LF, VT, FF, CR, SPACE and NO-BREAK SPACE.
\<close>

definition is_space :: "char \<Rightarrow> bool" where
  "is_space c = (c \<in> set [CHR 0x09, CHR 0x0A, CHR 0x0B, CHR 0x0C, CHR 0x0D, CHR 0x20, CHR 0xA0])"

definition trim :: "string \<Rightarrow> string" where
  "trim s = rev (dropWhile is_space (rev (dropWhile is_space s)))"

text \<open>\<^verbatim>\<open>validAcceptHeader\<close>, lines 65 to 80.\<close>

definition validAcceptHeader :: "jsval \<Rightarrow> bool" where
  "validAcceptHeader acceptHeader =
     (if \<not> truthy acceptHeader \<and> acceptHeader \<noteq> JStr [] then True
      else if \<not> isString acceptHeader then False
      else (case acceptHeader of
              JStr s \<Rightarrow>
                (let acceptedTypes = map trim (split_on CHR '';'' s)
                 in if ''application/json'' \<in> set acceptedTypes \<or> ''*/*'' \<in> set acceptedTypes
                    then True else False)
            | _ \<Rightarrow> False))"

text \<open>\<^verbatim>\<open>validContentTypeHeader\<close>, lines 90 to 110.\<close>

definition validContentTypeHeader :: "jsval \<Rightarrow> bool" where
  "validContentTypeHeader contentTypeHeader =
     (if \<not> truthy contentTypeHeader then False
      else if \<not> isString contentTypeHeader then False
      else (case contentTypeHeader of
              JStr s \<Rightarrow>
                (let contentTypes = map trim (split_on CHR '';'' s)
                 in if ''application/json'' \<in> set contentTypes then True else False)
            | _ \<Rightarrow> False))"

section \<open>Requests, responses and the persistence collaborator\<close>

text \<open>
  What a handler reads of the request: the two headers (\<^verbatim>\<open>req.header\<close> gives a string
  or \<^verbatim>\<open>undefined\<close>), the parsed body and the path parameter.
\<close>

record request =
  contentType :: "string option"
  accept :: "string option"
  body :: jsobject
  idTarea :: string

definition header :: "string option \<Rightarrow> jsval" where
  "header h = (case h of None \<Rightarrow> JUndefined | Some s \<Rightarrow> JStr s)"

text \<open>
  A template literal is kept as its pieces, the literal text and the interpolated values,
  so that a message carries the value the source interpolates without fixing how
  JavaScript prints it.
\<close>

datatype piece = Lit string | Val jsval

text \<open>
  What \<^verbatim>\<open>res.send\<close> is given: a value serialised as JSON, or the error object with its
  \<^verbatim>\<open>message\<close> and \<^verbatim>\<open>details\<close>.
\<close>

datatype payload = Json jsval | Envelope "piece list" "piece list"

record response =
  statusCode :: nat
  sent :: payload

text \<open>An error the collaborator rejects with: its \<^verbatim>\<open>name\<close> and \<^verbatim>\<open>message\<close>.\<close>

datatype jserror = JsError string string

text \<open>
  A handler either sends a response or ends in a fault that no code of the module
  catches, with nothing sent: a reference to an undeclared variable, a value that cannot
  be converted to a string, or a rejection of an awaited call outside any \<^verbatim>\<open>try\<close>.
\<close>

datatype fault = ReferenceError string | TypeError string | Rejected jserror

datatype outcome = Sent response | Unhandled fault

text \<open>
  The module \<^verbatim>\<open>../logic/tareas\<close> is a parameter of the handlers: five operations on a
  store of type \<open>'s\<close>, each resolving (\<open>Inr\<close>) or rejecting (\<open>Inl\<close>) and leaving a store.
  What the handlers send of it is a task or tasks, as their comments say (\<^verbatim>\<open>getAll\<close>
  gets all the tasks, \<^verbatim>\<open>create\<close> returns the object created with its id, \<^verbatim>\<open>getOne\<close>
  returns the task with a field \<^verbatim>\<open>id\<close>): \<^verbatim>\<open>res.send\<close> serialises an object or an array
  as JSON, with the status left as it is.
\<close>

record 's logic =
  getAll :: "'s \<Rightarrow> (jserror + jsobject list) \<times> 's"
  getOne :: "string \<Rightarrow> 's \<Rightarrow> (jserror + jsobject) \<times> 's"
  create :: "jsobject \<Rightarrow> 's \<Rightarrow> (jserror + jsobject) \<times> 's"
  update :: "string \<Rightarrow> jsobject \<Rightarrow> 's \<Rightarrow> (jserror + jsval) \<times> 's"
  erase :: "string \<Rightarrow> 's \<Rightarrow> (jserror + jsval) \<times> 's"

text \<open>The calls a handler makes, in order, each with whether it resolved.\<close>

datatype call =
    GetAll
  | GetOne string
  | Create jsobject
  | Update string jsobject
  | Erase string

type_synonym calls = "(call \<times> bool) list"

text \<open>The store after the calls of a log are made one after the other.\<close>

fun perform :: "'s logic \<Rightarrow> call \<Rightarrow> 's \<Rightarrow> 's" where
  "perform L GetAll s = snd (getAll L s)"
| "perform L (GetOne i) s = snd (getOne L i s)"
| "perform L (Create r) s = snd (create L r s)"
| "perform L (Update i r) s = snd (update L i r s)"
| "perform L (Erase i) s = snd (erase L i s)"

fun replay :: "'s logic \<Rightarrow> call list \<Rightarrow> 's \<Rightarrow> 's" where
  "replay L [] s = s"
| "replay L (c # cs) s = replay L cs (perform L c s)"

subsection \<open>The responses of the handlers\<close>

text \<open>The default of \<^verbatim>\<open>allRequest\<close>: status 200.\<close>

definition ok :: "jsval \<Rightarrow> response" where
  "ok v = \<lparr>statusCode = 200, sent = Json v\<rparr>"

definition invalidContentType :: "jsval \<Rightarrow> response" where
  "invalidContentType contenTypeHeader =
     \<lparr>statusCode = 400,
      sent = Envelope [Lit ''Invalid Content-Type : '', Val contenTypeHeader]
               [Lit ''This endpoint expected JSON object with attribute `description`'']\<rparr>"

definition mediaNotSupported :: "jsval \<Rightarrow> response" where
  "mediaNotSupported acceptHeader =
     \<lparr>statusCode = 400,
      sent = Envelope [Lit ''Media not supported :  '', Val acceptHeader]
               [Lit ''This endpoint only support 'application/json' media type, please verify your `Accept` header '']\<rparr>"

definition invalidAttribute :: "jsval \<Rightarrow> response" where
  \<open>invalidAttribute description =
     \<lparr>statusCode = 400,
      sent = Envelope [Lit ''Invalid attribute "description"'']
               [Lit ''The value '', Val description,
                Lit '' for attribute "description" is invalid, it should be a non-empty string'']\<rparr>\<close>

definition cantFind :: "string \<Rightarrow> response" where
  "cantFind i =
     \<lparr>statusCode = 400,
      sent = Envelope [Lit ''Can't find object with id : '', Val (JStr i)]
               [Lit ''This endpoint expected a valid object identifier'']\<rparr>"

definition cantFindObjecti :: "string \<Rightarrow> response" where
  "cantFindObjecti i =
     \<lparr>statusCode = 400,
      sent = Envelope [Lit ''Can't find objecti with id : '', Val (JStr i)]
               [Lit ''This endpoint expected a valid object identifier'']\<rparr>"

definition invalidStatus :: response where
  "invalidStatus =
     \<lparr>statusCode = 400,
      sent = Envelope [Lit ''Invalid Data'']
               [Lit ''Invalid status, only accepted `PENDIENTE`, `TERMINADO`, `CANCELADO`. It is case sensitive!'']\<rparr>"

definition onlyFromPendiente :: "jsval \<Rightarrow> response" where
  \<open>onlyFromPendiente oldStatus =
     \<lparr>statusCode = 400,
      sent = Envelope [Lit ''Invalid Data'']
               [Lit (''A Task with status '' @ [CHR 0x27]), Val oldStatus,
                Lit (''' can only be transitioned to status 'TERMINADO' or status 'CANCELADO'' @ [CHR 0x27])]\<rparr>\<close>

definition illegalTransition :: "jsval \<Rightarrow> jsval \<Rightarrow> response" where
  \<open>illegalTransition oldStatus status =
     \<lparr>statusCode = 400,
      sent = Envelope [Lit ''Invalid Data'']
               [Lit (''A Task with status '' @ [CHR 0x27]), Val oldStatus,
                Lit (''' can't be transitioned to status '' @ [CHR 0x27]), Val status, Lit ''' directly'']\<rparr>\<close>

definition cantUpdate :: "string \<Rightarrow> response" where
  \<open>cantUpdate i =
     \<lparr>statusCode = 400,
      sent = Envelope [Lit ''Can't update'']
               [Lit (''A Task with id '' @ [CHR 0x27]), Val (JStr i), Lit ''' can't be udpated'']\<rparr>\<close>

definition taskDeleted :: "string \<Rightarrow> response" where
  "taskDeleted i =
     \<lparr>statusCode = 200,
      sent = Envelope [Lit ''Task deleted'']
               [Lit ''The task with id '', Val (JStr i), Lit '' was successfully deleted'']\<rparr>"

definition cantBeDeleted :: "string \<Rightarrow> response" where
  "cantBeDeleted i =
     \<lparr>statusCode = 400,
      sent = Envelope [Lit ''Can't be deleted'']
               [Lit ''Task with id '', Val (JStr i), Lit '' can't be deleted'']\<rparr>"

section \<open>The schema of a task\<close>



section \<open>The route handlers\<close>

text \<open>
  Each handler takes the collaborator, the request and the store, and returns what it
  sent (or the fault it ended in), the store it left and the collaborator calls it made.
  The handlers that stamp a date also take the value of \<^verbatim>\<open>Date.now()\<close>.
\<close>

text \<open>\<^verbatim>\<open>obtenerTareas\<close>, lines 118 to 133. The \<^verbatim>\<open>await\<close> is outside any \<^verbatim>\<open>try\<close>.\<close>

definition obtenerTareas :: "'s logic \<Rightarrow> request \<Rightarrow> 's \<Rightarrow> outcome \<times> 's \<times> calls" where
  "obtenerTareas L req s =
     (let acceptHeader = header (accept req) in
      if \<not> validAcceptHeader acceptHeader then (Sent (mediaNotSupported acceptHeader), s, [])
      else (case getAll L s of
              (Inl error, s1) \<Rightarrow> (Unhandled (Rejected error), s1, [(GetAll, False)])
            | (Inr tareas, s1) \<Rightarrow> (Sent (ok (JArr (map JObj tareas))), s1, [(GetAll, True)])))"

text \<open>The object literal of lines 173 to 184.\<close>

definition modeloACrear :: "int \<Rightarrow> jsobject \<Rightarrow> jsobject" where
  "modeloACrear now jsonBody =
     [(''tipo'', obj_get jsonBody ''tipo''),
      (''ciudad'', obj_get jsonBody ''ciudad''),
      (''nombre_marca'', obj_get jsonBody ''nombre_marca''),
      (''description'', obj_get jsonBody ''description''),
      (''precio'', obj_get jsonBody ''precio''),
      (''contacto'', obj_get jsonBody ''contacto''),
      (''longitud'', obj_get jsonBody ''longitud''),
      (''latitud'', obj_get jsonBody ''latitud''),
      (''galeria'', obj_get jsonBody ''galeria''),
      (''date'', JDate now)]"

text \<open>
  \<^verbatim>\<open>crearTarea\<close>, lines 142 to 189. In the branch of lines 164 to 170 the argument of
  \<^verbatim>\<open>res.send\<close> interpolates \<^verbatim>\<open>description\<close>, which no scope of this function declares:
  evaluating it throws before anything is sent. The \<^verbatim>\<open>await\<close> of line 186 is outside any
  \<^verbatim>\<open>try\<close>.
\<close>

definition crearTarea :: "'s logic \<Rightarrow> int \<Rightarrow> request \<Rightarrow> 's \<Rightarrow> outcome \<times> 's \<times> calls" where
  "crearTarea L now req s =
     (let contenTypeHeader = header (contentType req) in
      if \<not> validContentTypeHeader contenTypeHeader
      then (Sent (invalidContentType contenTypeHeader), s, [])
      else
        let jsonBody = body req in
        if truthy (obj_get jsonBody ''description'') \<and> \<not> isString (obj_get jsonBody ''description'')
        then (Unhandled (ReferenceError ''description''), s, [])
        else
          let m = modeloACrear now jsonBody in
          (case create L m s of
             (Inl error, s1) \<Rightarrow> (Unhandled (Rejected error), s1, [(Create m, False)])
           | (Inr tareaCreada, s1) \<Rightarrow> (Sent (ok (JObj tareaCreada)), s1, [(Create m, True)])))"

text \<open>\<^verbatim>\<open>obtenerTarea\<close>, lines 197 to 211. It reads no header.\<close>

definition obtenerTarea :: "'s logic \<Rightarrow> request \<Rightarrow> 's \<Rightarrow> outcome \<times> 's \<times> calls" where
  "obtenerTarea L req s =
     (case getOne L (idTarea req) s of
        (Inr tarea, s1) \<Rightarrow> (Sent (ok (JObj tarea)), s1, [(GetOne (idTarea req), True)])
      | (Inl error, s1) \<Rightarrow> (Sent (cantFindObjecti (idTarea req)), s1, [(GetOne (idTarea req), False)]))"

text \<open>
  Lines 276 to 322 of \<^verbatim>\<open>actualizarTarea\<close>: the check of the requested status against
  the status of the fetched task \<open>t\<close>, giving the response of an early return or the task
  with its status set.
\<close>

definition comprobarStatus :: "jsval \<Rightarrow> jsobject \<Rightarrow> response + jsobject" where
  "comprobarStatus status t =
     (if truthy status then
        (let oldStatus = obj_get t ''status'' in
         if status \<notin> set [JStr ''PENDIENTE'', JStr ''TERMINADO'', JStr ''CANCELADO'']
         then Inl invalidStatus
         else if status \<noteq> oldStatus then
           (if oldStatus = JStr ''PENDIENTE''
               \<and> (status \<noteq> JStr ''TERMINADO'' \<and> status \<noteq> JStr ''CANCELADO'')
            then Inl (onlyFromPendiente oldStatus)
            else if (oldStatus = JStr ''TERMINADO'' \<and> status = JStr ''CANCELADO'')
                    \<or> (oldStatus = JStr ''CANCELADO'' \<and> status = JStr ''TERMINADO'')
            then Inl (illegalTransition oldStatus status)
            else Inr (obj_set t ''status'' status))
         else Inr (obj_set t ''status'' status))
      else Inr t)"

text \<open>
  \<^verbatim>\<open>actualizarTarea\<close>, lines 213 to 346. In the branch of lines 248 to 254 the argument
  of \<^verbatim>\<open>res.send\<close> interpolates the description, which is not a string there: when it
  cannot be converted, the conversion throws before anything is sent. The other
  interpolations are of strings or of \<^verbatim>\<open>undefined\<close>. The message of line 337 goes to the
  console and is not part of the result.
\<close>

definition actualizarTarea :: "'s logic \<Rightarrow> int \<Rightarrow> request \<Rightarrow> 's \<Rightarrow> outcome \<times> 's \<times> calls" where
  "actualizarTarea L now req s =
     (let contenTypeHeader = header (contentType req);
          acceptHeader = header (accept req) in
      if \<not> validContentTypeHeader contenTypeHeader
      then (Sent (invalidContentType contenTypeHeader), s, [])
      else if \<not> validAcceptHeader acceptHeader
      then (Sent (mediaNotSupported acceptHeader), s, [])
      else
        let description = obj_get (body req) ''description'';
            status = obj_get (body req) ''status'' in
        if truthy description \<and> \<not> isString description
        then (if printable description
              then (Sent (invalidAttribute description), s, [])
              else (Unhandled (TypeError ''Cannot convert object to primitive value''), s, []))
        else
          (case getOne L (idTarea req) s of
             (Inl error, s1) \<Rightarrow>
               (Sent (cantFind (idTarea req)), s1, [(GetOne (idTarea req), False)])
           | (Inr t0, s1) \<Rightarrow>
               (case comprobarStatus status (obj_delete t0 ''id'') of
                  Inl rejection \<Rightarrow> (Sent rejection, s1, [(GetOne (idTarea req), True)])
                | Inr t1 \<Rightarrow>
                    let t2 = (if truthy description then obj_set t1 ''description'' description else t1);
                        t = obj_set t2 ''date'' (JDate now) in
                    (case update L (idTarea req) t s1 of
                       (Inl error, s2) \<Rightarrow>
                         (Sent (cantUpdate (idTarea req)), s2,
                          [(GetOne (idTarea req), True), (Update (idTarea req) t, False)])
                     | (Inr result, s2) \<Rightarrow>
                         (case getOne L (idTarea req) s2 of
                            (Inl error, s3) \<Rightarrow>
                              (Sent (cantUpdate (idTarea req)), s3,
                               [(GetOne (idTarea req), True), (Update (idTarea req) t, True),
                                (GetOne (idTarea req), False)])
                          | (Inr tareaActualizada, s3) \<Rightarrow>
                              (Sent (ok (JObj tareaActualizada)), s3,
                               [(GetOne (idTarea req), True), (Update (idTarea req) t, True),
                                (GetOne (idTarea req), True)]))))))"

text \<open>\<^verbatim>\<open>borrarTarea\<close>, lines 348 to 382.\<close>

definition borrarTarea :: "'s logic \<Rightarrow> request \<Rightarrow> 's \<Rightarrow> outcome \<times> 's \<times> calls" where
  "borrarTarea L req s =
     (case getOne L (idTarea req) s of
        (Inl error, s1) \<Rightarrow> (Sent (cantFind (idTarea req)), s1, [(GetOne (idTarea req), False)])
      | (Inr t, s1) \<Rightarrow>
          (case erase L (idTarea req) s1 of
             (Inr result, s2) \<Rightarrow>
               (Sent (taskDeleted (idTarea req)), s2,
                [(GetOne (idTarea req), True), (Erase (idTarea req), True)])
           | (Inl error, s2) \<Rightarrow>
               (Sent (cantBeDeleted (idTarea req)), s2,
                [(GetOne (idTarea req), True), (Erase (idTarea req), False)])))"

section \<open>A collaborator in memory\<close>

text \<open>
  Modelled from the spec: the module \<^verbatim>\<open>../logic/tareas\<close>, which is not among the sources.
  The spec gives it five operations over task records keyed by an identifier, where
  \<^verbatim>\<open>getOne\<close>, \<^verbatim>\<open>update\<close> and \<^verbatim>\<open>erase\<close> fail when the identifier does not resolve, any
  operation may fail with a persistence error, \<^verbatim>\<open>create\<close> assigns the identifier and
  supplies the default status \<^verbatim>\<open>PENDIENTE\<close>, and \<^verbatim>\<open>getOne\<close> returns the record with its
  \<^verbatim>\<open>id\<close>. The default is the specification's: \<open>tareaSchema\<close> declares none. The store
  holds the records, the identifiers still to be assigned, and for each coming call
  whether it is to fail with a persistence error.
\<close>

record store =
  tasks :: "(string \<times> jsobject) list"
  fresh :: "string list"
  failing :: "bool list"

definition notFound :: jserror where
  "notFound = JsError ''NotFound'' ''no task with this id''"

definition persistenceError :: jserror where
  "persistenceError = JsError ''PersistenceError'' ''the store failed''"

definition nextCall :: "store \<Rightarrow> bool \<times> store" where
  "nextCall s = (case failing s of [] \<Rightarrow> (False, s) | f # fs \<Rightarrow> (f, s\<lparr>failing := fs\<rparr>))"

definition withId :: "string \<times> jsobject \<Rightarrow> jsobject" where
  "withId p = obj_set (snd p) ''id'' (JStr (fst p))"

definition memGetAll :: "store \<Rightarrow> (jserror + jsobject list) \<times> store" where
  "memGetAll s =
     (case nextCall s of
        (True, s1) \<Rightarrow> (Inl persistenceError, s1)
      | (False, s1) \<Rightarrow> (Inr (map withId (tasks s1)), s1))"

definition memGetOne :: "string \<Rightarrow> store \<Rightarrow> (jserror + jsobject) \<times> store" where
  "memGetOne i s =
     (case nextCall s of
        (True, s1) \<Rightarrow> (Inl persistenceError, s1)
      | (False, s1) \<Rightarrow>
          (case map_of (tasks s1) i of
             None \<Rightarrow> (Inl notFound, s1)
           | Some t \<Rightarrow> (Inr (withId (i, t)), s1)))"

definition memCreate :: "jsobject \<Rightarrow> store \<Rightarrow> (jserror + jsobject) \<times> store" where
  "memCreate r s =
     (case nextCall s of
        (True, s1) \<Rightarrow> (Inl persistenceError, s1)
      | (False, s1) \<Rightarrow>
          (case fresh s1 of
             [] \<Rightarrow> (Inl persistenceError, s1)
           | i # is \<Rightarrow>
               let t = (if obj_get r ''status'' = JUndefined
                        then obj_set r ''status'' (JStr ''PENDIENTE'') else r)
               in (Inr (withId (i, t)), s1\<lparr>tasks := tasks s1 @ [(i, t)], fresh := is\<rparr>)))"

definition memUpdate :: "string \<Rightarrow> jsobject \<Rightarrow> store \<Rightarrow> (jserror + jsval) \<times> store" where
  "memUpdate i r s =
     (case nextCall s of
        (True, s1) \<Rightarrow> (Inl persistenceError, s1)
      | (False, s1) \<Rightarrow>
          (case map_of (tasks s1) i of
             None \<Rightarrow> (Inl notFound, s1)
           | Some t \<Rightarrow>
               (Inr JUndefined,
                s1\<lparr>tasks := map (\<lambda>p. if fst p = i then (i, r) else p) (tasks s1)\<rparr>)))"

definition memErase :: "string \<Rightarrow> store \<Rightarrow> (jserror + jsval) \<times> store" where
  "memErase i s =
     (case nextCall s of
        (True, s1) \<Rightarrow> (Inl persistenceError, s1)
      | (False, s1) \<Rightarrow>
          (case map_of (tasks s1) i of
             None \<Rightarrow> (Inl notFound, s1)
           | Some t \<Rightarrow> (Inr JUndefined, s1\<lparr>tasks := filter (\<lambda>p. fst p \<noteq> i) (tasks s1)\<rparr>)))"

definition memLogic :: "store logic" where
  "memLogic = \<lparr>getAll = memGetAll, getOne = memGetOne, create = memCreate,
               update = memUpdate, erase = memErase\<rparr>"

section \<open>The Accept predicate in the words of the specification\<close>

text \<open>
  The specification's sentence, to compare \<open>validAcceptHeader\<close> with: a header is
  acceptable if it is absent, equal to \<^verbatim>\<open>*/*\<close>, or equal to \<^verbatim>\<open>application/json\<close>
  possibly followed by parameters, each introduced by a semicolon; any other value, and
  any value that is not a string, is not.
\<close>

definition acceptablePerSpec :: "jsval \<Rightarrow> bool" where
  "acceptablePerSpec h =
     (case h of
        JUndefined \<Rightarrow> True
      | JStr s \<Rightarrow> s = ''*/*'' \<or> s = ''application/json'' \<or> take 17 s = ''application/json;''
      | _ \<Rightarrow> False)"

section \<open>Concrete requests and stores\<close>

text \<open>A stored task with a given status, and a store holding it under the id \<^verbatim>\<open>a1\<close>.\<close>

definition taskWith :: "string \<Rightarrow> jsobject" where
  "taskWith st =
     [(''description'', JStr ''buy milk''), (''status'', JStr st), (''date'', JDate 1000)]"

definition storeWith :: "jsobject \<Rightarrow> bool list \<Rightarrow> store" where
  "storeWith t fs = \<lparr>tasks = [(''a1'', t)], fresh = [''a2''], failing = fs\<rparr>"

text \<open>A request with both headers \<^verbatim>\<open>application/json\<close>, and one with given headers.\<close>

definition jsonRequest :: "string \<Rightarrow> jsobject \<Rightarrow> request" where
  "jsonRequest i b =
     \<lparr>contentType = Some ''application/json'', accept = Some ''application/json'',
      body = b, idTarea = i\<rparr>"

definition requestWith :: "string option \<Rightarrow> string option \<Rightarrow> string \<Rightarrow> jsobject \<Rightarrow> request" where
  "requestWith ct ac i b = \<lparr>contentType = ct, accept = ac, body = b, idTarea = i\<rparr>"

section \<open>Facts about objects, responses and evaluation\<close>

lemma map_of_obj_set: "map_of (obj_set obj k v) = (map_of obj)(k \<mapsto> v)"
  by (induction obj k v rule: obj_set.induct) auto

lemma map_of_obj_delete: "map_of (obj_delete obj k) = (map_of obj)(k := None)"
  by (induction obj) (auto simp: obj_delete_def)

lemma obj_get_obj_set: "obj_get (obj_set obj k v) k' = (if k' = k then v else obj_get obj k')"
  by (simp add: obj_get_def map_of_obj_set)

lemma obj_get_obj_delete:
  "obj_get (obj_delete obj k) k' = (if k' = k then JUndefined else obj_get obj k')"
  by (simp add: obj_get_def map_of_obj_delete)

lemma statusCode_responses:
  "statusCode (invalidContentType v) = 400"
  "statusCode (mediaNotSupported v) = 400"
  "statusCode (invalidAttribute v) = 400"
  "statusCode (cantFind i) = 400"
  "statusCode (cantUpdate i) = 400"
  "statusCode invalidStatus = 400"
  "statusCode (onlyFromPendiente v) = 400"
  "statusCode (illegalTransition v w) = 400"
  "statusCode (ok v) = 200"
  by (simp_all add: invalidContentType_def mediaNotSupported_def invalidAttribute_def
      cantFind_def cantUpdate_def invalidStatus_def onlyFromPendiente_def
      illegalTransition_def ok_def)

text \<open>The equations that evaluate the collaborator in memory, the concrete requests and the header checks.\<close>

lemmas mem_defs = memLogic_def memGetOne_def memUpdate_def memCreate_def memErase_def
  memGetAll_def nextCall_def withId_def

lemmas fixture_defs = taskWith_def storeWith_def jsonRequest_def requestWith_def

lemmas header_defs = validContentTypeHeader_def validAcceptHeader_def header_def trim_def
  is_space_def

lemmas run_defs = actualizarTarea_def comprobarStatus_def mem_defs fixture_defs header_defs
  obj_get_def obj_delete_def Let_def

section \<open>Splitting and trimming\<close>

lemma split_on_unfold:
  "split_on c xs =
     takeWhile (\<lambda>x. x \<noteq> c) xs #
       (case dropWhile (\<lambda>x. x \<noteq> c) xs of [] \<Rightarrow> [] | d # rest \<Rightarrow> split_on c rest)"
  by (induction xs) (auto split: list.splits)

lemma dropWhile_neq_hd: "dropWhile (\<lambda>x. x \<noteq> c) s = d # rest \<Longrightarrow> d = c"
  using hd_dropWhile [of "\<lambda>x. x \<noteq> c" s] by auto

lemma split_on_segment_only_if:
  "seg \<in> set (split_on c s) \<Longrightarrow>
     \<exists>pre post. s = pre @ seg @ post \<and> c \<notin> set seg
        \<and> (pre = [] \<or> last pre = c) \<and> (post = [] \<or> hd post = c)"
proof (induction s rule: length_induct)
  case (1 s)
  let ?tw = "takeWhile (\<lambda>x. x \<noteq> c) s"
  let ?dw = "dropWhile (\<lambda>x. x \<noteq> c) s"
  have s: "s = ?tw @ ?dw" by simp
  from "1.prems" have "seg \<in> set (?tw # (case ?dw of [] \<Rightarrow> [] | d # rest \<Rightarrow> split_on c rest))"
    using split_on_unfold [of c s] by simp
  then consider (first) "seg = ?tw"
    | (later) rest where "?dw = c # rest" "seg \<in> set (split_on c rest)"
    by (cases ?dw) (auto dest: dropWhile_neq_hd)
  then show ?case
  proof cases
    case first
    have "c \<notin> set ?tw" using set_takeWhileD by fastforce
    moreover have "?dw = [] \<or> hd ?dw = c"
      using hd_dropWhile [of "\<lambda>x. x \<noteq> c" s] by auto
    ultimately show ?thesis using first s
      by (metis append_Nil)
  next
    case later
    have "length rest < length s"
      using s later(1) by (metis length_append length_Cons less_add_Suc2 trans_less_add2 lessI)
    with "1.IH" later(2) obtain pre post where
      d: "rest = pre @ seg @ post" "c \<notin> set seg" "pre = [] \<or> last pre = c" "post = [] \<or> hd post = c"
      by blast
    have "s = (?tw @ c # pre) @ seg @ post" using s later(1) d(1) by simp
    moreover have "last (?tw @ c # pre) = c" using d(3) by auto
    ultimately show ?thesis using d(2,4) by blast
  qed
qed

lemma split_on_no_sep: "c \<notin> set s \<Longrightarrow> split_on c s = [s]"
  by (induction s) auto

lemma split_on_not_Nil: "split_on c s \<noteq> []"
  by (induction s) (auto split: list.splits)

lemma split_on_append_sep: "split_on c (a @ c # b) = split_on c a @ split_on c b"
  by (induction a) (auto split: list.splits simp: split_on_not_Nil)

lemma split_on_segment_if:
  assumes "s = pre @ seg @ post" "c \<notin> set seg"
    "pre = [] \<or> last pre = c" "post = [] \<or> hd post = c"
  shows "seg \<in> set (split_on c s)"
proof -
  have tail: "seg \<in> set (split_on c (seg @ post))"
  proof (cases post)
    case Nil
    then show ?thesis using assms(2) by (simp add: split_on_no_sep)
  next
    case (Cons d q)
    then have "post = c # q" using assms(4) by simp
    then show ?thesis using assms(2) by (simp add: split_on_append_sep split_on_no_sep)
  qed
  show ?thesis
  proof (cases "pre = []")
    case True
    then show ?thesis using tail assms(1) by simp
  next
    case False
    then obtain p where "pre = p @ [c]" using assms(3)
      by (metis append_butlast_last_id)
    then have "s = p @ c # (seg @ post)" using assms(1) by simp
    then show ?thesis using tail by (simp add: split_on_append_sep)
  qed
qed

lemma split_on_segment_iff:
  "seg \<in> set (split_on c s) \<longleftrightarrow>
     (\<exists>pre post. s = pre @ seg @ post \<and> c \<notin> set seg
        \<and> (pre = [] \<or> last pre = c) \<and> (post = [] \<or> hd post = c))"
  using split_on_segment_only_if split_on_segment_if by blast

lemma trim_eq_if:
  assumes "t \<noteq> []" "\<not> is_space (hd t)" "\<not> is_space (last t)"
    "\<forall>x\<in>set a. is_space x" "\<forall>x\<in>set b. is_space x"
  shows "trim (a @ t @ b) = t"
proof -
  have 1: "dropWhile is_space (a @ t @ b) = t @ b"
    using assms(1,2,4) by (cases t) (simp_all add: dropWhile_append)
  have 2: "dropWhile is_space (rev b @ rev t) = rev t"
    using assms(1,3,5) by (cases t rule: rev_cases) (simp_all add: dropWhile_append)
  show ?thesis by (simp add: trim_def 1 2)
qed

lemma trim_eq_only_if:
  "\<exists>a b. s = a @ trim s @ b \<and> (\<forall>x\<in>set a. is_space x) \<and> (\<forall>x\<in>set b. is_space x)"
proof -
  let ?d = "dropWhile is_space s"
  let ?b = "rev (takeWhile is_space (rev ?d))"
  have "rev ?d = takeWhile is_space (rev ?d) @ dropWhile is_space (rev ?d)" by simp
  then have "?d = trim s @ ?b"
    unfolding trim_def by (metis rev_append rev_rev_ident)
  then have "s = takeWhile is_space s @ trim s @ ?b"
    by (metis takeWhile_dropWhile_id)
  moreover have "\<forall>x\<in>set (takeWhile is_space s). is_space x"
    using set_takeWhileD by fastforce
  moreover have "\<forall>x\<in>set ?b. is_space x"
    using set_takeWhileD by fastforce
  ultimately show ?thesis by blast
qed

section \<open>The Accept header\<close>

lemma validAcceptHeader_string:
  "validAcceptHeader (JStr s) \<longleftrightarrow>
     (\<exists>seg \<in> set (split_on CHR '';'' s). trim seg = ''application/json'' \<or> trim seg = ''*/*'')"
  by (auto simp: validAcceptHeader_def Let_def image_iff)

lemma validAcceptHeader_not_string:
  "\<not> isString h \<Longrightarrow> validAcceptHeader h \<longleftrightarrow> \<not> truthy h"
  by (cases h) (auto simp: validAcceptHeader_def)

lemma not_space_semicolon: "is_space x \<Longrightarrow> x \<noteq> CHR '';''"
  by (auto simp: is_space_def)

lemma validAcceptHeader_characterised:
  "(validAcceptHeader h \<longleftrightarrow>
      h = JUndefined \<or> h = JNull \<or> h = JBool False \<or> h = JNum 0
      \<or> (\<exists>pre a t b post.
            h = JStr (pre @ a @ t @ b @ post)
            \<and> (t = ''application/json'' \<or> t = ''*/*'')
            \<and> (pre = [] \<or> last pre = CHR '';'') \<and> (post = [] \<or> hd post = CHR '';'')
            \<and> (\<forall>x\<in>set (a @ b). is_space x)))"
proof (cases h)
  case (JStr s)
  have "validAcceptHeader (JStr s) \<longleftrightarrow>
      (\<exists>pre a t b post.
            s = pre @ a @ t @ b @ post
            \<and> (t = ''application/json'' \<or> t = ''*/*'')
            \<and> (pre = [] \<or> last pre = CHR '';'') \<and> (post = [] \<or> hd post = CHR '';'')
            \<and> (\<forall>x\<in>set (a @ b). is_space x))" (is "?L \<longleftrightarrow> ?R")
  proof
    assume ?L
    then obtain seg where seg: "seg \<in> set (split_on CHR '';'' s)"
      and t: "trim seg = ''application/json'' \<or> trim seg = ''*/*''"
      by (auto simp: validAcceptHeader_string)
    from split_on_segment_only_if [OF seg] obtain pre post where
      p: "s = pre @ seg @ post" "pre = [] \<or> last pre = CHR '';''" "post = [] \<or> hd post = CHR '';''"
      by blast
    from trim_eq_only_if [of seg] obtain a b where
      ab: "seg = a @ trim seg @ b" "\<forall>x\<in>set a. is_space x" "\<forall>x\<in>set b. is_space x"
      by blast
    have "s = pre @ a @ trim seg @ b @ post" using p(1) ab(1) by (metis append_assoc)
    moreover have "\<forall>x\<in>set (a @ b). is_space x" using ab(2,3) by auto
    ultimately show ?R using t p(2,3) by blast
  next
    assume ?R
    then obtain pre a t b post where
      r: "s = pre @ a @ t @ b @ post" "t = ''application/json'' \<or> t = ''*/*''"
        "pre = [] \<or> last pre = CHR '';''" "post = [] \<or> hd post = CHR '';''"
        "\<forall>x\<in>set (a @ b). is_space x"
      by blast
    have sp: "\<forall>x\<in>set a. is_space x" "\<forall>x\<in>set b. is_space x" using r(5) by auto
    have tr: "trim (a @ t @ b) = t"
      using r(2) by (auto intro!: trim_eq_if sp simp: is_space_def)
    have "CHR '';'' \<notin> set (a @ t @ b)"
      using r(2) sp not_space_semicolon by auto
    moreover have "s = pre @ (a @ t @ b) @ post" using r(1) by simp
    ultimately have "a @ t @ b \<in> set (split_on CHR '';'' s)"
      using r(3,4) split_on_segment_if by blast
    then show ?L using tr r(2) by (auto simp: validAcceptHeader_string)
  qed
  then show ?thesis using JStr by simp
qed (simp_all add: validAcceptHeader_def)

lemma obtenerTareas_media:
  "\<not> validAcceptHeader (header (accept req)) \<Longrightarrow>
     obtenerTareas L req s = (Sent (mediaNotSupported (header (accept req))), s, [])"
  by (simp add: obtenerTareas_def)

lemma actualizarTarea_media:
  "validContentTypeHeader (header (contentType req)) \<Longrightarrow>
   \<not> validAcceptHeader (header (accept req)) \<Longrightarrow>
     actualizarTarea L now req s = (Sent (mediaNotSupported (header (accept req))), s, [])"
  by (simp add: actualizarTarea_def)

lemma accept_examples:
  "validAcceptHeader (JStr ''application/json;charset=utf-8'')"
  "\<not> validAcceptHeader (JStr ''text/html'')"
  "validAcceptHeader (header None)"
  by (simp_all add: header_defs)

text \<open>
  C5, as amended. \<open>validAcceptHeader\<close> accepts exactly a value that is falsy and not the
  empty string (an absent header among them) and a string with a segment, between
  semicolons or the ends of the string, that is \<^verbatim>\<open>application/json\<close> or \<^verbatim>\<open>*/*\<close>
  with white space around it at most. So \<^verbatim>\<open>application/json;charset=utf-8\<close> and a missing
  header are accepted and \<^verbatim>\<open>text/html\<close> is rejected. The list handler, and the update
  handler once the Content-Type is valid, answer a rejected header with the media
  response carrying the header's value.
\<close>

theorem validAcceptHeader_accepts_exactly:
  "(validAcceptHeader h \<longleftrightarrow>
      h = JUndefined \<or> h = JNull \<or> h = JBool False \<or> h = JNum 0
      \<or> (\<exists>pre a t b post.
            h = JStr (pre @ a @ t @ b @ post)
            \<and> (t = ''application/json'' \<or> t = ''*/*'')
            \<and> (pre = [] \<or> last pre = CHR '';'') \<and> (post = [] \<or> hd post = CHR '';'')
            \<and> (\<forall>x\<in>set (a @ b). is_space x)))
   \<and> validAcceptHeader (JStr ''application/json;charset=utf-8'')
   \<and> \<not> validAcceptHeader (JStr ''text/html'')
   \<and> validAcceptHeader (header None)
   \<and> (\<not> validAcceptHeader (header (accept req)) \<longrightarrow>
        obtenerTareas L req s = (Sent (mediaNotSupported (header (accept req))), s, []))
   \<and> (validContentTypeHeader (header (contentType req))
        \<and> \<not> validAcceptHeader (header (accept req)) \<longrightarrow>
        actualizarTarea L now req s = (Sent (mediaNotSupported (header (accept req))), s, []))"
  apply (intro conjI impI)
       apply (rule validAcceptHeader_characterised)
      apply (rule accept_examples)
     apply (rule accept_examples)
    apply (rule accept_examples)
   apply (erule obtenerTareas_media)
  apply (erule conjE)
  apply (erule (1) actualizarTarea_media)
  done

theorem validAcceptHeader_accepts_exactly_witness:
  "validAcceptHeader (JStr ''text/html; application/json ;q=1'')
   \<and> obtenerTareas memLogic (requestWith None (Some ''text/html'') [] [])
        (storeWith (taskWith ''PENDIENTE'') []) =
      (Sent (mediaNotSupported (JStr ''text/html'')), storeWith (taskWith ''PENDIENTE'') [], [])
   \<and> actualizarTarea memLogic 2000
        (requestWith (Some ''application/json'') (Some ''text/html'') ''a1'' [])
        (storeWith (taskWith ''PENDIENTE'') []) =
      (Sent (mediaNotSupported (JStr ''text/html'')), storeWith (taskWith ''PENDIENTE'') [], [])"
proof -
  let ?get = "requestWith None (Some ''text/html'') [] []"
  let ?put = "requestWith (Some ''application/json'') (Some ''text/html'') ''a1'' []"
  let ?s = "storeWith (taskWith ''PENDIENTE'') []"
  have ex: "\<exists>pre a t b post.
      JStr ''text/html; application/json ;q=1'' = JStr (pre @ a @ t @ b @ post)
      \<and> (t = ''application/json'' \<or> t = ''*/*'')
      \<and> (pre = [] \<or> last pre = CHR '';'') \<and> (post = [] \<or> hd post = CHR '';'')
      \<and> (\<forall>x\<in>set (a @ b). is_space x)"
    apply (rule exI [of _ "''text/html;''"])
    apply (rule exI [of _ "'' ''"])
    apply (rule exI [of _ "''application/json''"])
    apply (rule exI [of _ "'' ''"])
    apply (rule exI [of _ "'';q=1''"])
    apply (simp add: is_space_def)
    done
  have g: "\<not> validAcceptHeader (header (accept ?get))" "header (accept ?get) = JStr ''text/html''"
    by (simp_all add: fixture_defs header_defs)
  have p: "validContentTypeHeader (header (contentType ?put))"
    "\<not> validAcceptHeader (header (accept ?put))" "header (accept ?put) = JStr ''text/html''"
    by (simp_all add: fixture_defs header_defs)
  have a: "validAcceptHeader (JStr ''text/html; application/json ;q=1'')"
    by (rule iffD2 [OF conjunct1 [OF validAcceptHeader_accepts_exactly]]) (intro disjI2, rule ex)
  have b: "obtenerTareas memLogic ?get ?s = (Sent (mediaNotSupported (JStr ''text/html'')), ?s, [])"
    using validAcceptHeader_accepts_exactly
        [where req = ?get and L = memLogic and s = ?s, THEN conjunct2, THEN conjunct2,
         THEN conjunct2, THEN conjunct2, THEN conjunct1] g
    by simp
  have c: "actualizarTarea memLogic 2000 ?put ?s = (Sent (mediaNotSupported (JStr ''text/html'')), ?s, [])"
    using validAcceptHeader_accepts_exactly
        [where req = ?put and L = memLogic and s = ?s and now = 2000, THEN conjunct2,
         THEN conjunct2, THEN conjunct2, THEN conjunct2, THEN conjunct2] p
    by simp
  show ?thesis using a b c by (intro conjI)
qed

text \<open>
  C5, as stated, fails: a header whose second segment is \<^verbatim>\<open>application/json\<close> is accepted
  though it is none of the values the specification lists, and so is a value that is not
  a string, \<^verbatim>\<open>null\<close>.
\<close>

theorem accept_not_as_specified_counterexample:
  "validAcceptHeader (JStr ''text/html;application/json'')
   \<and> \<not> acceptablePerSpec (JStr ''text/html;application/json'')
   \<and> validAcceptHeader JNull \<and> \<not> acceptablePerSpec JNull"
  by (simp add: header_defs acceptablePerSpec_def)

section \<open>The status check\<close>

lemma comprobarStatus_cross:
  assumes "(obj_get t ''status'' = JStr ''TERMINADO'' \<and> status = JStr ''CANCELADO'')
         \<or> (obj_get t ''status'' = JStr ''CANCELADO'' \<and> status = JStr ''TERMINADO'')"
  shows "comprobarStatus status t = Inl (illegalTransition (obj_get t ''status'') status)"
  using assms by (auto simp: comprobarStatus_def)

text \<open>
  C1, as amended. An update of an existing task whose status is \<^verbatim>\<open>TERMINADO\<close> or
  \<^verbatim>\<open>CANCELADO\<close>, asking for the other of the two, is rejected: no response is sent with
  a status other than 400 and the collaborator's update is never called; when the request
  passes the checks of its headers and of its description, the response is the one of the
  illegal transition, after the single fetch.
\<close>

theorem terminal_cross_rejected:
  assumes "getOne L (idTarea req) s = (Inr t0, s1)"
    and "(obj_get t0 ''status'' = JStr ''TERMINADO''
            \<and> obj_get (body req) ''status'' = JStr ''CANCELADO'')
       \<or> (obj_get t0 ''status'' = JStr ''CANCELADO''
            \<and> obj_get (body req) ''status'' = JStr ''TERMINADO'')"
  shows "(\<forall>r. fst (actualizarTarea L now req s) = Sent r \<longrightarrow> statusCode r = 400)
       \<and> (\<forall>i t w. (Update i t, w) \<notin> set (snd (snd (actualizarTarea L now req s))))
       \<and> (validContentTypeHeader (header (contentType req))
            \<and> validAcceptHeader (header (accept req))
            \<and> \<not> (truthy (obj_get (body req) ''description'')
                   \<and> \<not> isString (obj_get (body req) ''description''))
          \<longrightarrow> actualizarTarea L now req s =
                (Sent (illegalTransition (obj_get t0 ''status'') (obj_get (body req) ''status'')),
                 s1, [(GetOne (idTarea req), True)]))"
proof -
  have c: "comprobarStatus (obj_get (body req) ''status'') (obj_delete t0 ''id'') =
           Inl (illegalTransition (obj_get t0 ''status'') (obj_get (body req) ''status''))"
    using comprobarStatus_cross [of "obj_delete t0 ''id''" "obj_get (body req) ''status''"] assms(2)
    by (simp add: obj_get_obj_delete)
  show ?thesis
    using assms(1) c by (simp add: actualizarTarea_def Let_def statusCode_responses)
qed

theorem terminal_cross_rejected_witness:
  "getOne memLogic ''a1'' (storeWith (taskWith ''TERMINADO'') []) =
     (Inr (taskWith ''TERMINADO'' @ [(''id'', JStr ''a1'')]), storeWith (taskWith ''TERMINADO'') [])
   \<and> actualizarTarea memLogic 2000 (jsonRequest ''a1'' [(''status'', JStr ''CANCELADO'')])
       (storeWith (taskWith ''TERMINADO'') []) =
     (Sent (illegalTransition (JStr ''TERMINADO'') (JStr ''CANCELADO'')),
      storeWith (taskWith ''TERMINADO'') [], [(GetOne ''a1'', True)])"
proof -
  let ?req = "jsonRequest ''a1'' [(''status'', JStr ''CANCELADO'')]"
  let ?s = "storeWith (taskWith ''TERMINADO'') []"
  let ?fetched = "taskWith ''TERMINADO'' @ [(''id'', JStr ''a1'')]"
  have g: "getOne memLogic (idTarea ?req) ?s = (Inr ?fetched, ?s)"
    by (simp add: mem_defs fixture_defs)
  have h: "(obj_get ?fetched ''status'' = JStr ''TERMINADO''
              \<and> obj_get (body ?req) ''status'' = JStr ''CANCELADO'')
         \<or> (obj_get ?fetched ''status'' = JStr ''CANCELADO''
              \<and> obj_get (body ?req) ''status'' = JStr ''TERMINADO'')"
    by (simp add: fixture_defs obj_get_def)
  have v: "validContentTypeHeader (header (contentType ?req))"
    "validAcceptHeader (header (accept ?req))"
    "\<not> (truthy (obj_get (body ?req) ''description'')
        \<and> \<not> isString (obj_get (body ?req) ''description''))"
    by (simp_all add: fixture_defs header_defs obj_get_def)
  have i: "idTarea ?req = ''a1''"
    by (simp add: fixture_defs)
  have st: "obj_get ?fetched ''status'' = JStr ''TERMINADO''"
    "obj_get (body ?req) ''status'' = JStr ''CANCELADO''"
    by (simp_all add: fixture_defs obj_get_def)
  from terminal_cross_rejected [OF g h, of 2000] v g show ?thesis
    by (simp only: i st simp_thms)
qed

text \<open>
  C1, as stated, fails: a task whose status is \<^verbatim>\<open>TERMINADO\<close> is updated to
  \<^verbatim>\<open>PENDIENTE\<close>. The request is answered with status 200 and the new status is written.
\<close>

theorem terminal_to_pendiente_counterexample:
  "getOne memLogic ''a1'' (storeWith (taskWith ''TERMINADO'') []) =
     (Inr (taskWith ''TERMINADO'' @ [(''id'', JStr ''a1'')]), storeWith (taskWith ''TERMINADO'') [])
   \<and> actualizarTarea memLogic 2000 (jsonRequest ''a1'' [(''status'', JStr ''PENDIENTE'')])
       (storeWith (taskWith ''TERMINADO'') []) =
     (Sent (ok (JObj [(''description'', JStr ''buy milk''), (''status'', JStr ''PENDIENTE''),
                      (''date'', JDate 2000), (''id'', JStr ''a1'')])),
      storeWith [(''description'', JStr ''buy milk''), (''status'', JStr ''PENDIENTE''),
                 (''date'', JDate 2000)] [],
      [(GetOne ''a1'', True),
       (Update ''a1'' [(''description'', JStr ''buy milk''), (''status'', JStr ''PENDIENTE''),
                       (''date'', JDate 2000)], True),
       (GetOne ''a1'', True)])"
  by (simp add: actualizarTarea_def comprobarStatus_def mem_defs fixture_defs header_defs
      obj_get_def obj_delete_def Let_def)

section \<open>Creating a task\<close>

lemma modeloACrear_keys:
  "map fst (modeloACrear now b) =
     [''tipo'', ''ciudad'', ''nombre_marca'', ''description'', ''precio'', ''contacto'',
      ''longitud'', ''latitud'', ''galeria'', ''date'']"
  by (simp add: modeloACrear_def)







text \<open>
  C3: the code at the failing input. A create request with a valid Content-Type whose
  \<^verbatim>\<open>description\<close> is the number 5 sends nothing: it ends in the reference error of line
  167, where the claim has the response of an invalid attribute.
\<close>

theorem crearTarea_description_fault:
  "crearTarea L now (jsonRequest [] [(''description'', JNum 5)]) s =
     (Unhandled (ReferenceError ''description''), s, [])"
  by (simp add: crearTarea_def fixture_defs header_defs obj_get_def Let_def)

section \<open>Updating a task\<close>

lemma comprobarStatus_rejection: "comprobarStatus status t = Inl r \<Longrightarrow> statusCode r = 400"
  by (auto simp: comprobarStatus_def Let_def statusCode_responses split: if_splits)

lemma comprobarStatus_accepted:
  "comprobarStatus status t = Inr t1 \<Longrightarrow> t1 = t \<or> t1 = obj_set t ''status'' status"
  by (auto simp: comprobarStatus_def Let_def split: if_splits)

lemma comprobarStatus_same:
  assumes "st \<in> {''PENDIENTE'', ''TERMINADO'', ''CANCELADO''}" "obj_get t ''status'' = JStr st"
  shows "comprobarStatus (JStr st) t = Inr (obj_set t ''status'' (JStr st))"
  using assms by (auto simp: comprobarStatus_def Let_def)

text \<open>The nine ways \<open>actualizarTarea\<close> ends.\<close>

lemma actualizarTarea_cases:
  assumes run: "actualizarTarea L now req s = (out, s', log)"
  obtains
    (content_type) "\<not> validContentTypeHeader (header (contentType req))"
      "out = Sent (invalidContentType (header (contentType req)))" "s' = s" "log = []"
  | (media) "\<not> validAcceptHeader (header (accept req))"
      "out = Sent (mediaNotSupported (header (accept req)))" "s' = s" "log = []"
  | (attribute) "out = Sent (invalidAttribute (obj_get (body req) ''description''))" "s' = s" "log = []"
  | (conversion) "validContentTypeHeader (header (contentType req))"
      "validAcceptHeader (header (accept req))"
      "truthy (obj_get (body req) ''description'')"
      "\<not> isString (obj_get (body req) ''description'')"
      "\<not> printable (obj_get (body req) ''description'')"
      "out = Unhandled (TypeError ''Cannot convert object to primitive value'')" "s' = s" "log = []"
  | (not_found) e where "getOne L (idTarea req) s = (Inl e, s')"
      "out = Sent (cantFind (idTarea req))" "log = [(GetOne (idTarea req), False)]"
  | (status) t0 r where "getOne L (idTarea req) s = (Inr t0, s')"
      "comprobarStatus (obj_get (body req) ''status'') (obj_delete t0 ''id'') = Inl r"
      "out = Sent r" "log = [(GetOne (idTarea req), True)]"
  | (write_failed) t0 s1 t1 t e where "getOne L (idTarea req) s = (Inr t0, s1)"
      "comprobarStatus (obj_get (body req) ''status'') (obj_delete t0 ''id'') = Inr t1"
      "t = obj_set (if truthy (obj_get (body req) ''description'')
                    then obj_set t1 ''description'' (obj_get (body req) ''description'') else t1)
             ''date'' (JDate now)"
      "update L (idTarea req) t s1 = (Inl e, s')"
      "out = Sent (cantUpdate (idTarea req))"
      "log = [(GetOne (idTarea req), True), (Update (idTarea req) t, False)]"
  | (reread_failed) t0 s1 t1 t u s2 e where "getOne L (idTarea req) s = (Inr t0, s1)"
      "comprobarStatus (obj_get (body req) ''status'') (obj_delete t0 ''id'') = Inr t1"
      "t = obj_set (if truthy (obj_get (body req) ''description'')
                    then obj_set t1 ''description'' (obj_get (body req) ''description'') else t1)
             ''date'' (JDate now)"
      "update L (idTarea req) t s1 = (Inr u, s2)"
      "getOne L (idTarea req) s2 = (Inl e, s')"
      "out = Sent (cantUpdate (idTarea req))"
      "log = [(GetOne (idTarea req), True), (Update (idTarea req) t, True),
              (GetOne (idTarea req), False)]"
  | (updated) t0 s1 t1 t u s2 tareaActualizada where "getOne L (idTarea req) s = (Inr t0, s1)"
      "comprobarStatus (obj_get (body req) ''status'') (obj_delete t0 ''id'') = Inr t1"
      "t = obj_set (if truthy (obj_get (body req) ''description'')
                    then obj_set t1 ''description'' (obj_get (body req) ''description'') else t1)
             ''date'' (JDate now)"
      "update L (idTarea req) t s1 = (Inr u, s2)"
      "getOne L (idTarea req) s2 = (Inr tareaActualizada, s')"
      "out = Sent (ok (JObj tareaActualizada))"
      "log = [(GetOne (idTarea req), True), (Update (idTarea req) t, True),
              (GetOne (idTarea req), True)]"
  using run unfolding actualizarTarea_def Let_def
  by (auto split: if_splits prod.splits sum.splits)

lemma actualizarTarea_answer:
  assumes "actualizarTarea L now req s = (Sent r, s', log)"
  shows "statusCode r = 400 \<or> statusCode r = 200"
  using assms
proof (cases rule: actualizarTarea_cases)
  case (status t0 r')
  then show ?thesis using comprobarStatus_rejection [of _ _ r'] by simp
qed (simp_all add: statusCode_responses)

text \<open>
  C4, as amended. When a run of the update handler has called the collaborator's
  \<^verbatim>\<open>update\<close> and one of its calls failed, the response is the one of a failed update;
  the failed call is the write itself or the read after a write that resolved, and it is
  the last call: no call undoes the write. The store the handler leaves is the store the
  collaborator's own calls left, so a write that resolved stays written.
\<close>

theorem update_failure_is_reported:
  assumes run: "actualizarTarea L now req s = (out, s', log)"
    and upd: "(Update i t, w) \<in> set log"
    and failed: "(c, False) \<in> set log"
  shows "out = Sent (cantUpdate (idTarea req))
       \<and> i = idTarea req
       \<and> (log = [(GetOne i, True), (Update i t, False)]
          \<or> log = [(GetOne i, True), (Update i t, True), (GetOne i, False)])
       \<and> last log = (c, False)
       \<and> s' = replay L (map fst log) s"
  using run
proof (cases rule: actualizarTarea_cases)
  case (write_failed t0 s1 t1 t' e)
  then show ?thesis using upd failed by auto
next
  case (reread_failed t0 s1 t1 t' u s2 e)
  then show ?thesis using upd failed by auto
qed (use upd failed in auto)

theorem update_failure_is_reported_witness:
  "actualizarTarea memLogic 2000 (jsonRequest ''a1'' [(''status'', JStr ''TERMINADO'')])
     (storeWith (taskWith ''PENDIENTE'') [False, False, True]) =
     (Sent (cantUpdate ''a1''),
      storeWith [(''description'', JStr ''buy milk''), (''status'', JStr ''TERMINADO''),
                 (''date'', JDate 2000)] [],
      [(GetOne ''a1'', True),
       (Update ''a1'' [(''description'', JStr ''buy milk''), (''status'', JStr ''TERMINADO''),
                       (''date'', JDate 2000)], True),
       (GetOne ''a1'', False)])
   \<and> replay memLogic
        [GetOne ''a1'',
         Update ''a1'' [(''description'', JStr ''buy milk''), (''status'', JStr ''TERMINADO''),
                        (''date'', JDate 2000)],
         GetOne ''a1'']
        (storeWith (taskWith ''PENDIENTE'') [False, False, True]) =
      storeWith [(''description'', JStr ''buy milk''), (''status'', JStr ''TERMINADO''),
                 (''date'', JDate 2000)] []"
proof -
  let ?req = "jsonRequest ''a1'' [(''status'', JStr ''TERMINADO'')]"
  let ?s = "storeWith (taskWith ''PENDIENTE'') [False, False, True]"
  let ?written = "[(''description'', JStr ''buy milk''), (''status'', JStr ''TERMINADO''),
             (''date'', JDate 2000)]"
  let ?log = "[(GetOne ''a1'', True), (Update ''a1'' ?written, True), (GetOne ''a1'', False)]"
  have run: "actualizarTarea memLogic 2000 ?req ?s =
      (Sent (cantUpdate ''a1''), storeWith ?written [], ?log)"
    by (simp add: run_defs)
  have u: "(Update ''a1'' ?written, True) \<in> set ?log"
    by simp
  have f: "(GetOne ''a1'', False) \<in> set ?log"
    by simp
  from update_failure_is_reported [OF run u f]
  have "storeWith ?written [] = replay memLogic (map fst ?log) ?s"
    by (elim conjE)
  then have "replay memLogic [GetOne ''a1'', Update ''a1'' ?written, GetOne ''a1''] ?s =
      storeWith ?written []"
    by simp
  with run show ?thesis by (intro conjI)
qed

text \<open>
  C4, as stated, fails: the write resolves, the read after it fails, the response is the
  one of a failed update, and the stored task is no longer what it was: its status and its
  date are those of the request.
\<close>

theorem update_reread_failure_counterexample:
  "fst (actualizarTarea memLogic 2000 (jsonRequest ''a1'' [(''status'', JStr ''TERMINADO'')])
          (storeWith (taskWith ''PENDIENTE'') [False, False, True])) = Sent (cantUpdate ''a1'')
   \<and> map_of (tasks (storeWith (taskWith ''PENDIENTE'') [False, False, True])) ''a1'' =
       Some [(''description'', JStr ''buy milk''), (''status'', JStr ''PENDIENTE''),
             (''date'', JDate 1000)]
   \<and> map_of (tasks (fst (snd (actualizarTarea memLogic 2000
          (jsonRequest ''a1'' [(''status'', JStr ''TERMINADO'')])
          (storeWith (taskWith ''PENDIENTE'') [False, False, True]))))) ''a1'' =
       Some [(''description'', JStr ''buy milk''), (''status'', JStr ''TERMINADO''),
             (''date'', JDate 2000)]"
  by (simp add: run_defs)

text \<open>
  C7, as amended. An update addressed to an id that the collaborator does not resolve
  never calls the collaborator's \<^verbatim>\<open>update\<close>, and no response is sent with a status other
  than 400; when the request passes the checks of its two headers and of its description,
  the response is the one of the object not found, after the single fetch.
\<close>

theorem update_unknown_id_not_found:
  assumes "getOne L (idTarea req) s = (Inl e, s1)"
  shows "(\<forall>r. fst (actualizarTarea L now req s) = Sent r \<longrightarrow> statusCode r = 400)
       \<and> (\<forall>i t w. (Update i t, w) \<notin> set (snd (snd (actualizarTarea L now req s))))
       \<and> (validContentTypeHeader (header (contentType req))
            \<and> validAcceptHeader (header (accept req))
            \<and> \<not> (truthy (obj_get (body req) ''description'')
                   \<and> \<not> isString (obj_get (body req) ''description''))
          \<longrightarrow> actualizarTarea L now req s =
                (Sent (cantFind (idTarea req)), s1, [(GetOne (idTarea req), False)]))"
  using assms by (simp add: actualizarTarea_def Let_def statusCode_responses)

theorem update_unknown_id_not_found_witness:
  "getOne memLogic ''zz'' (storeWith (taskWith ''PENDIENTE'') []) =
     (Inl notFound, storeWith (taskWith ''PENDIENTE'') [])
   \<and> actualizarTarea memLogic 2000 (jsonRequest ''zz'' [(''status'', JStr ''TERMINADO'')])
        (storeWith (taskWith ''PENDIENTE'') []) =
      (Sent (cantFind ''zz''), storeWith (taskWith ''PENDIENTE'') [], [(GetOne ''zz'', False)])"
proof -
  let ?req = "jsonRequest ''zz'' [(''status'', JStr ''TERMINADO'')]"
  let ?s = "storeWith (taskWith ''PENDIENTE'') []"
  have g: "getOne memLogic (idTarea ?req) ?s = (Inl notFound, ?s)"
    by (simp add: mem_defs fixture_defs)
  have v: "validContentTypeHeader (header (contentType ?req))
            \<and> validAcceptHeader (header (accept ?req))
            \<and> \<not> (truthy (obj_get (body ?req) ''description'')
                   \<and> \<not> isString (obj_get (body ?req) ''description''))"
    by (simp add: fixture_defs header_defs obj_get_def)
  have i: "idTarea ?req = ''zz''"
    by (simp add: fixture_defs)
  from update_unknown_id_not_found [OF g, of 2000, THEN conjunct2, THEN conjunct2, THEN mp, OF v]
  have "actualizarTarea memLogic 2000 ?req ?s =
      (Sent (cantFind ''zz''), ?s, [(GetOne ''zz'', False)])"
    by (simp only: i)
  with g show ?thesis by (simp only: i simp_thms)
qed

text \<open>
  C7, as stated, fails: an update addressed to an id that does not resolve, sent without a
  Content-Type, is answered with the response of the invalid Content-Type, before any
  fetch.
\<close>

theorem update_unknown_id_counterexample:
  "getOne memLogic ''zz'' (storeWith (taskWith ''PENDIENTE'') []) =
     (Inl notFound, storeWith (taskWith ''PENDIENTE'') [])
   \<and> actualizarTarea memLogic 2000 (requestWith None None ''zz'' [(''status'', JStr ''TERMINADO'')])
        (storeWith (taskWith ''PENDIENTE'') []) =
      (Sent (invalidContentType JUndefined), storeWith (taskWith ''PENDIENTE'') [], [])
   \<and> invalidContentType JUndefined \<noteq> cantFind ''zz''"
  by (simp add: run_defs invalidContentType_def cantFind_def)

text \<open>
  C8, as amended. An update that passes the checks of its headers and of its description
  and asks for the status the fetched task already has, one of the three, is not stopped
  by the status check: the handler goes on to the write, with a record whose status is
  that status and whose date is the current time; when the write and the read after it
  resolve, the response is status 200 with the task read.
\<close>

theorem update_same_status_accepted:
  assumes ct: "validContentTypeHeader (header (contentType req))"
    and ac: "validAcceptHeader (header (accept req))"
    and de: "\<not> (truthy (obj_get (body req) ''description'')
               \<and> \<not> isString (obj_get (body req) ''description''))"
    and get: "getOne L (idTarea req) s = (Inr t0, s1)"
    and st: "st \<in> {''PENDIENTE'', ''TERMINADO'', ''CANCELADO''}"
    and old: "obj_get t0 ''status'' = JStr st"
    and new: "obj_get (body req) ''status'' = JStr st"
  shows "\<exists>t w rest.
           snd (snd (actualizarTarea L now req s)) =
             (GetOne (idTarea req), True) # (Update (idTarea req) t, w) # rest
         \<and> obj_get t ''status'' = JStr st
         \<and> obj_get t ''date'' = JDate now
         \<and> (\<forall>u s2 tareaActualizada s3.
               update L (idTarea req) t s1 = (Inr u, s2) \<longrightarrow>
               getOne L (idTarea req) s2 = (Inr tareaActualizada, s3) \<longrightarrow>
               actualizarTarea L now req s =
                 (Sent \<lparr>statusCode = 200, sent = Json (JObj tareaActualizada)\<rparr>, s3,
                  [(GetOne (idTarea req), True), (Update (idTarea req) t, True),
                   (GetOne (idTarea req), True)]))"
proof -
  let ?d = "obj_get (body req) ''description''"
  let ?t1 = "obj_set (obj_delete t0 ''id'') ''status'' (JStr st)"
  let ?t = "obj_set (if truthy ?d then obj_set ?t1 ''description'' ?d else ?t1) ''date'' (JDate now)"
  have chk: "comprobarStatus (obj_get (body req) ''status'') (obj_delete t0 ''id'') = Inr ?t1"
    using comprobarStatus_same [OF st, of "obj_delete t0 ''id''"] old new
    by (simp add: obj_get_obj_delete)
  have run: "actualizarTarea L now req s =
       (case update L (idTarea req) ?t s1 of
          (Inl error, s2) \<Rightarrow>
            (Sent (cantUpdate (idTarea req)), s2,
             [(GetOne (idTarea req), True), (Update (idTarea req) ?t, False)])
        | (Inr result, s2) \<Rightarrow>
            (case getOne L (idTarea req) s2 of
               (Inl error, s3) \<Rightarrow>
                 (Sent (cantUpdate (idTarea req)), s3,
                  [(GetOne (idTarea req), True), (Update (idTarea req) ?t, True),
                   (GetOne (idTarea req), False)])
             | (Inr tareaActualizada, s3) \<Rightarrow>
                 (Sent (ok (JObj tareaActualizada)), s3,
                  [(GetOne (idTarea req), True), (Update (idTarea req) ?t, True),
                   (GetOne (idTarea req), True)])))"
    using ct ac de get chk by (auto simp add: actualizarTarea_def Let_def)
  have log: "\<exists>w rest. snd (snd (actualizarTarea L now req s)) =
             (GetOne (idTarea req), True) # (Update (idTarea req) ?t, w) # rest"
    unfolding run by (auto split: prod.splits sum.splits)
  have status: "obj_get ?t ''status'' = JStr st"
    by (simp add: obj_get_obj_set)
  have date: "obj_get ?t ''date'' = JDate now"
    by (simp add: obj_get_obj_set)
  have resolved: "\<forall>u s2 tareaActualizada s3.
               update L (idTarea req) ?t s1 = (Inr u, s2) \<longrightarrow>
               getOne L (idTarea req) s2 = (Inr tareaActualizada, s3) \<longrightarrow>
               actualizarTarea L now req s =
                 (Sent \<lparr>statusCode = 200, sent = Json (JObj tareaActualizada)\<rparr>, s3,
                  [(GetOne (idTarea req), True), (Update (idTarea req) ?t, True),
                   (GetOne (idTarea req), True)])"
    unfolding run by (simp add: ok_def)
  from log obtain w rest where l: "snd (snd (actualizarTarea L now req s)) =
             (GetOne (idTarea req), True) # (Update (idTarea req) ?t, w) # rest"
    by blast
  show ?thesis
    apply (rule exI [of _ ?t])
    apply (rule exI [of _ w])
    apply (rule exI [of _ rest])
    apply (intro conjI)
       apply (rule l)
      apply (rule status)
     apply (rule date)
    apply (rule resolved)
    done
qed

theorem update_same_status_accepted_witness:
  "actualizarTarea memLogic 2000 (jsonRequest ''a1'' [(''status'', JStr ''TERMINADO'')])
     (storeWith (taskWith ''TERMINADO'') []) =
     (Sent \<lparr>statusCode = 200,
            sent = Json (JObj [(''description'', JStr ''buy milk''), (''status'', JStr ''TERMINADO''),
                               (''date'', JDate 2000), (''id'', JStr ''a1'')])\<rparr>,
      storeWith [(''description'', JStr ''buy milk''), (''status'', JStr ''TERMINADO''),
                 (''date'', JDate 2000)] [],
      [(GetOne ''a1'', True),
       (Update ''a1'' [(''description'', JStr ''buy milk''), (''status'', JStr ''TERMINADO''),
                       (''date'', JDate 2000)], True),
       (GetOne ''a1'', True)])"
proof -
  let ?req = "jsonRequest ''a1'' [(''status'', JStr ''TERMINADO'')]"
  let ?s = "storeWith (taskWith ''TERMINADO'') []"
  let ?fetched = "taskWith ''TERMINADO'' @ [(''id'', JStr ''a1'')]"
  let ?written = "[(''description'', JStr ''buy milk''), (''status'', JStr ''TERMINADO''),
             (''date'', JDate 2000)]"
  let ?reread = "?written @ [(''id'', JStr ''a1'')]"
  have ct: "validContentTypeHeader (header (contentType ?req))"
    and ac: "validAcceptHeader (header (accept ?req))"
    and de: "\<not> (truthy (obj_get (body ?req) ''description'')
               \<and> \<not> isString (obj_get (body ?req) ''description''))"
    by (simp_all add: fixture_defs header_defs obj_get_def)
  have get: "getOne memLogic (idTarea ?req) ?s = (Inr ?fetched, ?s)"
    by (simp add: mem_defs fixture_defs)
  have st: "''TERMINADO'' \<in> {''PENDIENTE'', ''TERMINADO'', ''CANCELADO''}"
    by simp
  have old: "obj_get ?fetched ''status'' = JStr ''TERMINADO''"
    and new: "obj_get (body ?req) ''status'' = JStr ''TERMINADO''"
    by (simp_all add: fixture_defs obj_get_def)
  have i: "idTarea ?req = ''a1''"
    by (simp add: fixture_defs)
  from update_same_status_accepted [OF ct ac de get st old new, of 2000] obtain t w rest where
    l: "snd (snd (actualizarTarea memLogic 2000 ?req ?s)) =
          (GetOne (idTarea ?req), True) # (Update (idTarea ?req) t, w) # rest"
    and r: "\<forall>u s2 tareaActualizada s3.
               update memLogic (idTarea ?req) t ?s = (Inr u, s2) \<longrightarrow>
               getOne memLogic (idTarea ?req) s2 = (Inr tareaActualizada, s3) \<longrightarrow>
               actualizarTarea memLogic 2000 ?req ?s =
                 (Sent \<lparr>statusCode = 200, sent = Json (JObj tareaActualizada)\<rparr>, s3,
                  [(GetOne (idTarea ?req), True), (Update (idTarea ?req) t, True),
                   (GetOne (idTarea ?req), True)])"
    by (elim exE conjE)
  have "snd (snd (actualizarTarea memLogic 2000 ?req ?s)) =
          [(GetOne ''a1'', True), (Update ''a1'' ?written, True), (GetOne ''a1'', True)]"
    by (simp add: run_defs)
  with l have t: "t = ?written"
    by (simp only: list.inject prod.inject call.inject)
  have u: "update memLogic (idTarea ?req) ?written ?s = (Inr JUndefined, storeWith ?written [])"
    by (simp add: mem_defs fixture_defs)
  have g: "getOne memLogic (idTarea ?req) (storeWith ?written []) =
      (Inr ?reread, storeWith ?written [])"
    by (simp add: mem_defs fixture_defs)
  from r [unfolded t, rule_format, OF u g] show ?thesis
    by (simp only: i append.simps)
qed

text \<open>
  C8, as stated, fails: an update that asks for the status the task has, sent without a
  Content-Type, is answered with status 400 and nothing is written.
\<close>

theorem update_same_status_counterexample:
  "getOne memLogic ''a1'' (storeWith (taskWith ''TERMINADO'') []) =
     (Inr (taskWith ''TERMINADO'' @ [(''id'', JStr ''a1'')]), storeWith (taskWith ''TERMINADO'') [])
   \<and> actualizarTarea memLogic 2000
        (requestWith None None ''a1'' [(''status'', JStr ''TERMINADO'')])
        (storeWith (taskWith ''TERMINADO'') []) =
      (Sent (invalidContentType JUndefined), storeWith (taskWith ''TERMINADO'') [], [])
   \<and> statusCode (invalidContentType JUndefined) = 400"
  by (simp add: run_defs statusCode_responses)

lemma written_frame:
  assumes "t1 = t \<or> t1 = obj_set t ''status'' st"
  shows "map_of (obj_set (if c then obj_set t1 ''description'' d else t1) ''date'' v) k =
         (if k = ''date'' then Some v
          else if k = ''description'' \<and> c then Some d
          else if k = ''status'' \<and> t1 \<noteq> t then Some st
          else map_of t k)"
  using assms by (auto simp: map_of_obj_set)

text \<open>
  C10. An update answered with status 200 made three calls on the id of the request: the
  fetch, the write and the read after it. The record written has no \<^verbatim>\<open>id\<close> field, and
  every field of it other than \<^verbatim>\<open>status\<close>, \<^verbatim>\<open>description\<close>, \<^verbatim>\<open>date\<close> and \<^verbatim>\<open>id\<close> is as
  in the record fetched.
\<close>

theorem update_changes_three_fields_only:
  assumes run: "actualizarTarea L now req s = (Sent r, s', log)"
    and success: "statusCode r = 200"
  shows "\<exists>t0 s1 t tareaActualizada.
           getOne L (idTarea req) s = (Inr t0, s1)
         \<and> log = [(GetOne (idTarea req), True), (Update (idTarea req) t, True),
                   (GetOne (idTarea req), True)]
         \<and> map_of t ''id'' = None
         \<and> (\<forall>k. k \<notin> {''status'', ''description'', ''date'', ''id''} \<longrightarrow> map_of t k = map_of t0 k)
         \<and> r = ok (JObj tareaActualizada)"
  using run
proof (cases rule: actualizarTarea_cases)
  case (updated t0 s1 t1 t u s2 tareaActualizada)
  note w = written_frame [OF comprobarStatus_accepted [OF updated(2)]]
  have noid: "map_of t ''id'' = None"
    unfolding updated(3) w by (simp add: map_of_obj_delete)
  have others: "\<forall>k. k \<notin> {''status'', ''description'', ''date'', ''id''} \<longrightarrow> map_of t k = map_of t0 k"
    unfolding updated(3) w by (simp add: map_of_obj_delete)
  have r: "r = ok (JObj tareaActualizada)" using updated(6) by simp
  show ?thesis
    apply (rule exI [of _ t0])
    apply (rule exI [of _ s1])
    apply (rule exI [of _ t])
    apply (rule exI [of _ tareaActualizada])
    apply (intro conjI)
        apply (rule updated(1))
       apply (rule updated(7))
      apply (rule noid)
     apply (rule others)
    apply (rule r)
    done
next
  case content_type
  then show ?thesis using success by (simp add: statusCode_responses)
next
  case media
  then show ?thesis using success by (simp add: statusCode_responses)
next
  case attribute
  then show ?thesis using success by (simp add: statusCode_responses)
next
  case conversion
  then show ?thesis by simp
next
  case (not_found e)
  then show ?thesis using success by (simp add: statusCode_responses)
next
  case (status t0 r')
  then show ?thesis using success comprobarStatus_rejection [of _ _ r'] by simp
next
  case (write_failed t0 s1 t1 t e)
  then show ?thesis using success by (simp add: statusCode_responses)
next
  case (reread_failed t0 s1 t1 t u s2 e)
  then show ?thesis using success by (simp add: statusCode_responses)
qed

theorem update_changes_three_fields_only_witness:
  "actualizarTarea memLogic 2000
     (jsonRequest ''a1'' [(''description'', JStr ''buy bread''), (''ciudad'', JStr ''Lima'')])
     (storeWith [(''ciudad'', JStr ''Cusco''), (''description'', JStr ''buy milk''),
                 (''date'', JDate 1000)] []) =
     (Sent (ok (JObj [(''ciudad'', JStr ''Cusco''), (''description'', JStr ''buy bread''),
                      (''date'', JDate 2000), (''id'', JStr ''a1'')])),
      storeWith [(''ciudad'', JStr ''Cusco''), (''description'', JStr ''buy bread''),
                 (''date'', JDate 2000)] [],
      [(GetOne ''a1'', True),
       (Update ''a1'' [(''ciudad'', JStr ''Cusco''), (''description'', JStr ''buy bread''),
                       (''date'', JDate 2000)], True),
       (GetOne ''a1'', True)])
   \<and> map_of [(''ciudad'', JStr ''Cusco''), (''description'', JStr ''buy bread''),
              (''date'', JDate 2000)] ''ciudad'' =
     map_of [(''ciudad'', JStr ''Cusco''), (''description'', JStr ''buy milk''),
             (''date'', JDate 1000), (''id'', JStr ''a1'')] ''ciudad''"
proof -
  let ?req = "jsonRequest ''a1'' [(''description'', JStr ''buy bread''), (''ciudad'', JStr ''Lima'')]"
  let ?s = "storeWith [(''ciudad'', JStr ''Cusco''), (''description'', JStr ''buy milk''),
                 (''date'', JDate 1000)] []"
  let ?written = "[(''ciudad'', JStr ''Cusco''), (''description'', JStr ''buy bread''),
             (''date'', JDate 2000)]"
  let ?fetched = "[(''ciudad'', JStr ''Cusco''), (''description'', JStr ''buy milk''),
                 (''date'', JDate 1000), (''id'', JStr ''a1'')]"
  let ?reread = "[(''ciudad'', JStr ''Cusco''), (''description'', JStr ''buy bread''),
                      (''date'', JDate 2000), (''id'', JStr ''a1'')]"
  let ?log = "[(GetOne ''a1'', True), (Update ''a1'' ?written, True), (GetOne ''a1'', True)]"
  have run: "actualizarTarea memLogic 2000 ?req ?s =
      (Sent (ok (JObj ?reread)), storeWith ?written [], ?log)"
    by (simp add: run_defs)
  have success: "statusCode (ok (JObj ?reread)) = 200"
    by (simp add: statusCode_responses)
  have g: "getOne memLogic (idTarea ?req) ?s = (Inr ?fetched, ?s)"
    by (simp add: mem_defs fixture_defs)
  from update_changes_three_fields_only [OF run success] obtain t0 s1 t where
    f: "getOne memLogic (idTarea ?req) ?s = (Inr t0, s1)"
      "?log = [(GetOne (idTarea ?req), True), (Update (idTarea ?req) t, True),
               (GetOne (idTarea ?req), True)]"
      "\<forall>k. k \<notin> {''status'', ''description'', ''date'', ''id''} \<longrightarrow> map_of t k = map_of t0 k"
    by (elim exE conjE)
  from f(1) g have t0: "t0 = ?fetched"
    by simp
  from f(2) have t: "t = ?written"
    by (simp only: list.inject prod.inject call.inject)
  have k: "''ciudad'' \<notin> {''status'', ''description'', ''date'', ''id''}"
    by simp
  from f(3) [rule_format, OF k] have "map_of ?written ''ciudad'' = map_of ?fetched ''ciudad''"
    unfolding t0 t .
  with run show ?thesis by (intro conjI)
qed

section \<open>The description check and the single read\<close>

text \<open>
  C6: the code at the failing inputs. An update whose \<^verbatim>\<open>description\<close> is the number 0 is
  not rejected: it is answered with status 200, the description left as it was. A create
  request whose \<^verbatim>\<open>description\<close> is \<^verbatim>\<open>false\<close> is not rejected either: the value is handed
  to the collaborator as the description.
\<close>

theorem falsy_description_accepted:
  "actualizarTarea memLogic 2000 (jsonRequest ''a1'' [(''description'', JNum 0)])
     (storeWith (taskWith ''PENDIENTE'') []) =
     (Sent (ok (JObj [(''description'', JStr ''buy milk''), (''status'', JStr ''PENDIENTE''),
                      (''date'', JDate 2000), (''id'', JStr ''a1'')])),
      storeWith [(''description'', JStr ''buy milk''), (''status'', JStr ''PENDIENTE''),
                 (''date'', JDate 2000)] [],
      [(GetOne ''a1'', True),
       (Update ''a1'' [(''description'', JStr ''buy milk''), (''status'', JStr ''PENDIENTE''),
                       (''date'', JDate 2000)], True),
       (GetOne ''a1'', True)])
   \<and> snd (snd (crearTarea memLogic 2000 (jsonRequest [] [(''description'', JBool False)])
                (storeWith (taskWith ''PENDIENTE'') []))) =
      [(Create [(''tipo'', JUndefined), (''ciudad'', JUndefined), (''nombre_marca'', JUndefined),
                (''description'', JBool False), (''precio'', JUndefined),
                (''contacto'', JUndefined), (''longitud'', JUndefined),
                (''latitud'', JUndefined), (''galeria'', JUndefined), (''date'', JDate 2000)],
        True)]"
  by (simp add: run_defs crearTarea_def modeloACrear_def)

text \<open>
  C9: the code at the failing input. A read of one task with the Accept header
  \<^verbatim>\<open>text/html\<close>, which \<open>validAcceptHeader\<close> rejects, is answered with status 200 and the
  task.
\<close>

theorem obtenerTarea_ignores_accept:
  "obtenerTarea memLogic (requestWith None (Some ''text/html'') ''a1'' [])
     (storeWith (taskWith ''PENDIENTE'') []) =
     (Sent (ok (JObj [(''description'', JStr ''buy milk''), (''status'', JStr ''PENDIENTE''),
                      (''date'', JDate 1000), (''id'', JStr ''a1'')])),
      storeWith (taskWith ''PENDIENTE'') [], [(GetOne ''a1'', True)])
   \<and> \<not> validAcceptHeader (header (accept (requestWith None (Some ''text/html'') ''a1'' [])))"
  by (simp add: obtenerTarea_def mem_defs fixture_defs header_defs)

end
